theory Spec2Isabelle
  imports Complex_Main
begin

section \<open>JavaScript values\<close>

text \<open>
  The values that flow through filters, query parameters and cached payloads.
  Numbers are the integers (page numbers, counts, numeric ids); \<open>NaN\<close> and fractions
  are outside this model. An object is a finite map from property names to values; a
  property that is missing reads as \<open>undefined\<close>.
\<close>

datatype jsval = JUndefined | JNull | JBool bool | JNum int | JStr string

type_synonym jsobj = "string \<rightharpoonup> jsval"

datatype js_error = TypeError

text \<open>Truthiness, as \<^verbatim>\<open>!x\<close>, \<^verbatim>\<open>x || y\<close> and \<^verbatim>\<open>if (x)\<close> test it.\<close>

fun truthy :: "jsval \<Rightarrow> bool" where
  "truthy JUndefined = False"
| "truthy JNull = False"
| "truthy (JBool b) = b"
| "truthy (JNum n) = (n \<noteq> 0)"
| "truthy (JStr s) = (s \<noteq> [])"

definition get_prop :: "jsobj \<Rightarrow> string \<Rightarrow> jsval" where
  "get_prop obj k = (case obj k of None \<Rightarrow> JUndefined | Some v \<Rightarrow> v)"

definition js_or :: "jsval \<Rightarrow> jsval \<Rightarrow> jsval" where
  "js_or a b = (if truthy a then a else b)"

text \<open>An optional string argument under \<^verbatim>\<open>if (s)\<close> or \<^verbatim>\<open>s ? a : b\<close>.\<close>

definition truthy_str :: "string option \<Rightarrow> bool" where
  "truthy_str s = (case s of None \<Rightarrow> False | Some v \<Rightarrow> v \<noteq> [])"

text \<open>Decimal rendering of an integer, which is what \<^verbatim>\<open>toString()\<close> gives for one.\<close>

definition digit_char :: "nat \<Rightarrow> char" where
  "digit_char d = ''0123456789'' ! d"

function nat_toString :: "nat \<Rightarrow> string" where
  "nat_toString n =
     (if n < 10 then [digit_char n] else nat_toString (n div 10) @ [digit_char (n mod 10)])"
  by pat_completeness auto
termination
  by (relation "measure id") auto

definition int_toString :: "int \<Rightarrow> string" where
  "int_toString i =
     (if i < 0 then CHR ''-'' # nat_toString (nat (- i)) else nat_toString (nat i))"

text \<open>\<^verbatim>\<open>v.toString()\<close>: a \<open>TypeError\<close> on \<open>undefined\<close> and \<open>null\<close>.\<close>

fun js_toString :: "jsval \<Rightarrow> js_error + string" where
  "js_toString JUndefined = Inl TypeError"
| "js_toString JNull = Inl TypeError"
| "js_toString (JBool b) = Inr (if b then ''true'' else ''false'')"
| "js_toString (JNum n) = Inr (int_toString n)"
| "js_toString (JStr s) = Inr s"


section \<open>CacheItem\<close>

text \<open>
  A \<^verbatim>\<open>Date\<close> is its number of milliseconds since the epoch. \<open>ttl\<close> is a number of
  minutes, not necessarily whole.
\<close>

record CacheItem =
  ci_id :: string
  cachedAt :: int
  ci_data :: jsobj
  ttl :: rat

text \<open>
  Modelled from the spec: \<^verbatim>\<open>timeDeltaInMinutes\<close> is imported from \<^verbatim>\<open>../util\<close>, which is
  not among the sources. The spec calls its result the "elapsed minutes since
  \<^verbatim>\<open>cachedAt\<close>": the difference of the two instants, in minutes, neither rounded nor
  made absolute.
\<close>

definition timeDeltaInMinutes :: "int \<Rightarrow> int \<Rightarrow> rat" where
  "timeDeltaInMinutes a b = of_int (a - b) / 60000"

text \<open>
  The constructor. \<^verbatim>\<open>uuid()\<close> (also from \<^verbatim>\<open>../util\<close>) and \<^verbatim>\<open>new Date()\<close> read the
  environment: the string the first would return and the instant the second returns
  are arguments. \<^verbatim>\<open>this.id = (this.data.id || uuid()).toString()\<close>.
\<close>

definition new_CacheItem :: "jsobj \<Rightarrow> rat \<Rightarrow> string \<Rightarrow> int \<Rightarrow> js_error + CacheItem" where
  "new_CacheItem payload t uuid now =
     (case js_toString (js_or (get_prop payload ''id'') (JStr uuid)) of
        Inl e \<Rightarrow> Inl e
      | Inr s \<Rightarrow> Inr \<lparr>ci_id = s, cachedAt = now, ci_data = payload, ttl = t\<rparr>)"

definition isStale :: "CacheItem \<Rightarrow> int \<Rightarrow> bool" where
  "isStale c now = (timeDeltaInMinutes now (cachedAt c) > ttl c)"


section \<open>Pagination\<close>

record Pagination =
  page :: int
  pageSize :: int
  p_totalCount :: "int option"

text \<open>
  \<^verbatim>\<open>new Pagination(props)\<close>; of the props only \<^verbatim>\<open>pageSize\<close> reaches the state (the
  \<^verbatim>\<open>onChange\<close> callback is wired by the owner and modelled there).
\<close>

definition new_Pagination :: "int option \<Rightarrow> Pagination" where
  "new_Pagination props_pageSize =
     \<lparr>page = 1,
      pageSize = (case props_pageSize of None \<Rightarrow> 20 | Some n \<Rightarrow> if truthy (JNum n) then n else 20),
      p_totalCount = None\<rparr>"

text \<open>
  An optional number (\<^verbatim>\<open>totalCount?: number\<close>, \<^verbatim>\<open>page?: number\<close>) is an \<open>int option\<close>,
  \<open>None\<close> for \<open>undefined\<close>. \<^verbatim>\<open>!this.totalCount\<close> holds for \<open>undefined\<close> and for \<open>0\<close>, and
  \<^verbatim>\<open>if (page)\<close> fails for both.
\<close>

definition canGoToNext :: "Pagination \<Rightarrow> bool" where
  "canGoToNext p =
     (case p_totalCount p of
        None \<Rightarrow> True
      | Some n \<Rightarrow> if \<not> truthy (JNum n) then True else page p * pageSize p < n)"

definition params :: "Pagination \<Rightarrow> jsobj" where
  "params p = [''page'' \<mapsto> JNum (page p), ''pageSize'' \<mapsto> JNum (pageSize p)]"

definition Pagination_init :: "int option \<Rightarrow> int option \<Rightarrow> Pagination \<Rightarrow> Pagination" where
  "Pagination_init pg ps p =
     (let p1 = (case pg of None \<Rightarrow> p | Some n \<Rightarrow> if truthy (JNum n) then p\<lparr>page := n\<rparr> else p)
      in (case ps of None \<Rightarrow> p1 | Some n \<Rightarrow> if truthy (JNum n) then p1\<lparr>pageSize := n\<rparr> else p1))"

definition setTotalCount :: "int \<Rightarrow> Pagination \<Rightarrow> Pagination" where
  "setTotalCount n p = p\<lparr>p_totalCount := Some n\<rparr>"

definition goToPrev :: "Pagination \<Rightarrow> Pagination" where
  "goToPrev p = (if page p > 1 then p\<lparr>page := page p - 1\<rparr> else p)"

text \<open>
  \<^verbatim>\<open>goToNext\<close> without its callback: the new state, and whether \<^verbatim>\<open>onChange\<close> is to be
  called (when one is configured).
\<close>

definition goToNext :: "Pagination \<Rightarrow> Pagination \<times> bool" where
  "goToNext p = (if canGoToNext p then (p\<lparr>page := page p + 1\<rparr>, True) else (p, False))"

section \<open>Collection\<close>

subsection \<open>Collaborators that are not among the sources\<close>

text \<open>
  \<^verbatim>\<open>Sorting\<close>, \<^verbatim>\<open>CursorPagination\<close> and the query-string parser are imported by the
  Collection and are not among the sources. Their objects are states of arbitrary types
  \<open>'srt\<close> and \<open>'cur\<close>, and the methods the Collection calls on them are parameters.
  A method acts on its own object. \<^verbatim>\<open>setParams\<close> of Sorting gives the new state of the
  object and says whether it fires the change callback that the object was built with;
  the Collection's constructor builds it with \<^verbatim>\<open>onChange: () => this.fetch()\<close>.
\<close>

record ('srt, 'cur) collaborators =
  new_Sorting :: "'srt"
  sorting_setParams :: "string option \<Rightarrow> bool option \<Rightarrow> 'srt \<Rightarrow> 'srt \<times> bool"
  sorting_params :: "'srt \<Rightarrow> jsobj"
  new_CursorPagination :: "int option \<Rightarrow> 'cur"
  cursor_init :: "string option \<Rightarrow> int option \<Rightarrow> 'cur \<Rightarrow> 'cur"
  cursor_setNext :: "string option \<Rightarrow> 'cur \<Rightarrow> 'cur"
  cursor_setPrev :: "string option \<Rightarrow> 'cur \<Rightarrow> 'cur"
  cursor_params :: "'cur \<Rightarrow> jsobj"
  qs_parse :: "string \<Rightarrow> jsobj"

subsection \<open>Configuration, options, responses\<close>

datatype pagination_strategy = OffsetStrategy | CursorStrategy | NoStrategy

text \<open>
  What a call ends with when it does not return: the value that was thrown (for an
  asynchronous call, the value its promise is rejected with), or the \<open>RangeError\<close> of a
  call stack that has no room for the call.
\<close>

datatype 'err thrown = Thrown 'err | RangeError

text \<open>
  \<^verbatim>\<open>fetchFn\<close> is always configured; what a call of it settles to is an argument of the
  operation that awaits it. \<^verbatim>\<open>searchFn\<close> is optional, and the configuration says whether
  it is there. \<^verbatim>\<open>errorHandlerFn\<close> is optional too; when it is there, a call of it with
  an error returns (\<open>None\<close>) or throws (\<open>Some\<close> of what it throws). The calls of the
  three are recorded in the trace.
\<close>

record 'err config =
  cfg_pagination :: pagination_strategy
  cfg_pageSize :: "int option"
  initialFilters :: "jsobj option"
  has_searchFn :: bool
  errorHandlerFn :: "('err \<Rightarrow> 'err option) option"

record fetch_options =
  clearFilters :: bool
  query :: "string option"
  sortBy :: "string option"
  sortAscending :: "bool option"
  o_page :: "int option"
  o_pageSize :: "int option"
  pageCursor :: "string option"
  o_filters :: "jsobj option"
  shouldThrowError :: bool

text \<open>The options \<^verbatim>\<open>{}\<close>, the default of \<^verbatim>\<open>fetch\<close> and \<^verbatim>\<open>init\<close>.\<close>

definition no_options :: fetch_options where
  "no_options =
     \<lparr>clearFilters = False, query = None, sortBy = None, sortAscending = None,
      o_page = None, o_pageSize = None, pageCursor = None, o_filters = None,
      shouldThrowError = False\<rparr>"

text \<open>
  A response of \<^verbatim>\<open>fetchFn\<close>. An optional field is \<open>None\<close> when the response does not
  have it (\<^verbatim>\<open>"totalCount" in res\<close> is false); a cursor that is there is a string or
  \<open>null\<close> (the inner \<open>None\<close>).
\<close>

record 'item response =
  r_data :: "'item list"
  r_totalCount :: "int option"
  nextPageCursor :: "string option option"
  prevPageCursor :: "string option option"

text \<open>\<^verbatim>\<open>c || null\<close> on a cursor: the empty string is falsy.\<close>

definition or_null :: "string option \<Rightarrow> string option" where
  "or_null c = (if truthy_str c then c else None)"

subsection \<open>State\<close>

text \<open>
  What the Collection does to the outside is kept in a trace, oldest call first: the
  calls of the injected functions with their arguments, and the console warning.
\<close>

datatype 'err event =
    FetchFnCall jsobj
  | SearchFnCall string
  | ErrorHandlerCall 'err
  | ConsoleWarn

record ('item, 'err, 'srt, 'cur) collection =
  initialized :: bool
  data :: "'item list"
  totalCount :: int
  fetching :: bool
  fetchErr :: "'err option"
  searching :: bool
  searchErr :: "'err option"
  searchQuery :: string
  sorting :: "'srt"
  filtersMap :: jsobj
  pagination :: "Pagination option"
  cursorPagination :: "'cur option"
  trace :: "'err event list"

text \<open>
  The constructor. \<^verbatim>\<open>filtersMap.replace(o)\<close> leaves exactly the entries of \<open>o\<close>. The
  reaction that writes the query string to the browser's URL
  (\<^verbatim>\<open>syncParamsToUrl\<close>) touches no field and is left out.
\<close>

definition new_Collection ::
  "('srt, 'cur) collaborators \<Rightarrow> 'err config \<Rightarrow> ('item, 'err, 'srt, 'cur) collection" where
  "new_Collection X cfg =
     \<lparr>initialized = False,
      data = [],
      totalCount = 0,
      fetching = False,
      fetchErr = None,
      searching = False,
      searchErr = None,
      searchQuery = [],
      sorting = new_Sorting X,
      filtersMap = (case initialFilters cfg of None \<Rightarrow> Map.empty | Some f \<Rightarrow> f),
      pagination =
        (if cfg_pagination cfg = OffsetStrategy then Some (new_Pagination (cfg_pageSize cfg))
         else None),
      cursorPagination =
        (if cfg_pagination cfg = CursorStrategy then Some (new_CursorPagination X (cfg_pageSize cfg))
         else None),
      trace = []\<rparr>"

subsection \<open>Computed\<close>

definition filters :: "('item, 'err, 'srt, 'cur) collection \<Rightarrow> jsobj" where
  "filters st = filtersMap st"

definition paginationParams ::
  "('srt, 'cur) collaborators \<Rightarrow> ('item, 'err, 'srt, 'cur) collection \<Rightarrow> jsobj" where
  "paginationParams X st =
     (case pagination st of
        Some p \<Rightarrow> params p
      | None \<Rightarrow> (case cursorPagination st of Some c \<Rightarrow> cursor_params X c | None \<Rightarrow> Map.empty))"

text \<open>
  An object spread \<^verbatim>\<open>{...a, ...b, ...c}\<close> copies the properties of \<open>a\<close>, then those of
  \<open>b\<close>, then those of \<open>c\<close>, each assignment replacing what is there under the same name.
\<close>

definition spread :: "jsobj list \<Rightarrow> jsobj" where
  "spread objs = foldl (++) Map.empty objs"

definition queryParams ::
  "('srt, 'cur) collaborators \<Rightarrow> ('item, 'err, 'srt, 'cur) collection \<Rightarrow> jsobj" where
  "queryParams X st = spread [filters st, sorting_params X (sorting st), paginationParams X st]"

subsection \<open>Filters\<close>

text \<open>
  \<^verbatim>\<open>filtersMap.merge(o)\<close> sets every key of \<open>o\<close> to its value in \<open>o\<close>; \<^verbatim>\<open>clear()\<close> empties
  the map; \<^verbatim>\<open>delete(k)\<close> removes one key.
\<close>

definition setFetchParams ::
  "jsobj \<Rightarrow> ('item, 'err, 'srt, 'cur) collection \<Rightarrow> ('item, 'err, 'srt, 'cur) collection" where
  "setFetchParams f st = (st\<lparr>filtersMap := Map.empty\<rparr>)\<lparr>filtersMap := f\<rparr>"

definition mergeFetchParams ::
  "jsobj \<Rightarrow> ('item, 'err, 'srt, 'cur) collection \<Rightarrow> ('item, 'err, 'srt, 'cur) collection" where
  "mergeFetchParams f st = st\<lparr>filtersMap := filtersMap st ++ f\<rparr>"

definition clearFetchParams ::
  "('item, 'err, 'srt, 'cur) collection \<Rightarrow> ('item, 'err, 'srt, 'cur) collection" where
  "clearFetchParams st = st\<lparr>filtersMap := Map.empty\<rparr>"

definition clearFetchParam ::
  "string \<Rightarrow> ('item, 'err, 'srt, 'cur) collection \<Rightarrow> ('item, 'err, 'srt, 'cur) collection" where
  "clearFetchParam k st = st\<lparr>filtersMap := (filtersMap st)(k := None)\<rparr>"

definition resetFetchParams ::
  "'err config \<Rightarrow> ('item, 'err, 'srt, 'cur) collection \<Rightarrow> ('item, 'err, 'srt, 'cur) collection" where
  "resetFetchParams cfg st =
     st\<lparr>filtersMap := (case initialFilters cfg of None \<Rightarrow> Map.empty | Some f \<Rightarrow> f)\<rparr>"

subsection \<open>fetch\<close>

text \<open>
  \<^verbatim>\<open>fetch\<close> runs in two parts. The first is synchronous and ends at the \<^verbatim>\<open>await\<close>; it
  is given here in three pieces. The first piece warns about a cursor without a cursor
  strategy and calls \<^verbatim>\<open>this.sorting.setParams(sortBy, sortAscending)\<close>: the state with the
  new sorting object, and whether the change callback is fired.
\<close>

definition fetch_prepare ::
  "('srt, 'cur) collaborators \<Rightarrow> fetch_options \<Rightarrow> ('item, 'err, 'srt, 'cur) collection
     \<Rightarrow> ('item, 'err, 'srt, 'cur) collection \<times> bool" where
  "fetch_prepare X opts st =
     (let st0 = (if truthy_str (pageCursor opts) \<and> cursorPagination st = None
                 then st\<lparr>trace := trace st @ [ConsoleWarn]\<rparr> else st);
          r = sorting_setParams X (sortBy opts) (sortAscending opts) (sorting st0)
      in (st0\<lparr>sorting := fst r\<rparr>, snd r))"

text \<open>
  The last piece, after \<^verbatim>\<open>setParams\<close> has returned: it applies the pagination options
  and the filters, sets \<^verbatim>\<open>fetching\<close>, enters the \<^verbatim>\<open>try\<close> block, reads \<^verbatim>\<open>queryParams\<close> and
  calls \<^verbatim>\<open>fetchFn\<close> with them.
\<close>

definition fetch_request ::
  "('srt, 'cur) collaborators \<Rightarrow> fetch_options \<Rightarrow> ('item, 'err, 'srt, 'cur) collection
     \<Rightarrow> ('item, 'err, 'srt, 'cur) collection" where
  "fetch_request X opts st1 =
     (let st2 = (case pagination st1 of
                   Some p \<Rightarrow> st1\<lparr>pagination := Some (Pagination_init (o_page opts) (o_pageSize opts) p)\<rparr>
                 | None \<Rightarrow>
                    (case cursorPagination st1 of
                       Some c \<Rightarrow> st1\<lparr>cursorPagination :=
                                      Some (cursor_init X (pageCursor opts) (o_pageSize opts) c)\<rparr>
                     | None \<Rightarrow> st1));
          fs = (if truthy_str (query opts)
                then (case query opts of Some q \<Rightarrow> Some (qs_parse X q) | None \<Rightarrow> None)
                else o_filters opts);
          st3 = (case fs of
                   None \<Rightarrow> st2
                 | Some f \<Rightarrow> if clearFilters opts then setFetchParams f st2 else mergeFetchParams f st2);
          st4 = st3\<lparr>fetching := True\<rparr>
      in st4\<lparr>trace := trace st4 @ [FetchFnCall (queryParams X st4)]\<rparr>)"

text \<open>
  Between the two, the change callback, when \<^verbatim>\<open>setParams\<close> fires it, calls
  \<^verbatim>\<open>this.fetch()\<close> with no options, inside \<^verbatim>\<open>setParams\<close>. The nested call runs its own
  synchronous part at once, firing the callback again if its \<^verbatim>\<open>setParams\<close> does, and so
  on; \<open>d\<close> is the number of nested calls of \<^verbatim>\<open>fetch\<close> the call stack has room for.
  With room, the nested call hands a promise back to the callback, which drops it, and
  the outer call goes on to its request. With no room the call of \<^verbatim>\<open>fetch\<close> raises a
  \<open>RangeError\<close> that leaves the callback, \<^verbatim>\<open>setParams\<close> and the outer \<^verbatim>\<open>fetch\<close>, which is
  before its \<^verbatim>\<open>try\<close> block: its promise is rejected and nothing else of it runs. The
  result says whether the call reached its request, and gives the state it leaves.
\<close>

fun fetch_begin ::
  "nat \<Rightarrow> ('srt, 'cur) collaborators \<Rightarrow> fetch_options \<Rightarrow> ('item, 'err, 'srt, 'cur) collection
     \<Rightarrow> bool \<times> ('item, 'err, 'srt, 'cur) collection" where
  "fetch_begin 0 X opts st =
     (let r = fetch_prepare X opts st
      in if snd r then (False, fst r) else (True, fetch_request X opts (fst r)))"
| "fetch_begin (Suc d) X opts st =
     (let r = fetch_prepare X opts st
      in (True, fetch_request X opts
                  (if snd r then snd (fetch_begin d X no_options (fst r)) else fst r)))"

text \<open>The \<^verbatim>\<open>finally\<close> block.\<close>

definition fetch_finally ::
  "('item, 'err, 'srt, 'cur) collection \<Rightarrow> ('item, 'err, 'srt, 'cur) collection" where
  "fetch_finally st = (st\<lparr>fetching := False\<rparr>)\<lparr>initialized := True\<rparr>"

text \<open>
  The second part runs when the promise of \<^verbatim>\<open>fetchFn\<close> settles, on the state of that
  moment: \<open>Inr res\<close> when it resolved with \<open>res\<close>, \<open>Inl err\<close> when it rejected (or
  \<^verbatim>\<open>fetchFn\<close> threw) with \<open>err\<close>. The result is what the promise of \<^verbatim>\<open>fetch\<close> settles
  to, \<open>Inl\<close> for a rejection, and the state after \<^verbatim>\<open>finally\<close>. An error handler that
  throws leaves the \<^verbatim>\<open>catch\<close> block at its call.
\<close>

definition fetch_settle ::
  "'err config \<Rightarrow> ('srt, 'cur) collaborators \<Rightarrow> fetch_options \<Rightarrow> 'err + 'item response
     \<Rightarrow> ('item, 'err, 'srt, 'cur) collection
     \<Rightarrow> ('err thrown + 'item response) \<times> ('item, 'err, 'srt, 'cur) collection" where
  "fetch_settle cfg X opts outcome st =
     (case outcome of
        Inr res \<Rightarrow>
          (let st1 = st\<lparr>data := r_data res\<rparr>;
               st2 = (case r_totalCount res of Some n \<Rightarrow> st1\<lparr>totalCount := n\<rparr> | None \<Rightarrow> st1);
               st3 = (case cursorPagination st2 of
                        None \<Rightarrow> st2
                      | Some c \<Rightarrow>
                         (let c1 = (case nextPageCursor res of
                                      Some n \<Rightarrow> cursor_setNext X (or_null n) c | None \<Rightarrow> c);
                              c2 = (case prevPageCursor res of
                                      Some n \<Rightarrow> cursor_setPrev X (or_null n) c1 | None \<Rightarrow> c1)
                          in st2\<lparr>cursorPagination := Some c2\<rparr>))
           in (Inr res, fetch_finally st3))
      | Inl err \<Rightarrow>
          (let st1 = st\<lparr>fetchErr := Some err\<rparr>;
               rest = (if shouldThrowError opts then Inl (Thrown err)
                       else Inr \<lparr>r_data = [], r_totalCount = Some 0,
                                 nextPageCursor = None, prevPageCursor = None\<rparr>)
           in (case errorHandlerFn cfg of
                 None \<Rightarrow> (rest, fetch_finally st1)
               | Some h \<Rightarrow>
                   (let st2 = st1\<lparr>trace := trace st1 @ [ErrorHandlerCall err]\<rparr>
                    in (case h err of
                          Some e \<Rightarrow> (Inl (Thrown e), fetch_finally st2)
                        | None \<Rightarrow> (rest, fetch_finally st2))))))"

text \<open>
  A call of \<^verbatim>\<open>fetch\<close> and its settling, with nothing in between. The fetches that the
  change callback started stay in flight; each settles by \<open>fetch_settle\<close> in its turn.
\<close>

definition fetch ::
  "nat \<Rightarrow> 'err config \<Rightarrow> ('srt, 'cur) collaborators \<Rightarrow> fetch_options \<Rightarrow> 'err + 'item response
     \<Rightarrow> ('item, 'err, 'srt, 'cur) collection
     \<Rightarrow> ('err thrown + 'item response) \<times> ('item, 'err, 'srt, 'cur) collection" where
  "fetch d cfg X opts outcome st =
     (let b = fetch_begin d X opts st
      in if fst b then fetch_settle cfg X opts outcome (snd b) else (Inl RangeError, snd b))"

definition init ::
  "nat \<Rightarrow> 'err config \<Rightarrow> ('srt, 'cur) collaborators \<Rightarrow> fetch_options \<Rightarrow> 'err + 'item response
     \<Rightarrow> ('item, 'err, 'srt, 'cur) collection
     \<Rightarrow> ('err thrown + unit) \<times> ('item, 'err, 'srt, 'cur) collection" where
  "init d cfg X opts outcome st =
     (if \<not> initialized st
      then (case fetch d cfg X opts outcome st of
              (Inl e, st') \<Rightarrow> (Inl e, st')
            | (Inr res, st') \<Rightarrow> (Inr (), st'))
      else (Inr (), st))"

subsection \<open>search\<close>

text \<open>
  One run of \<^verbatim>\<open>handleSearch\<close>, with what the promise of \<^verbatim>\<open>searchFn\<close> settles to. The
  500 ms debounce in front of it decides when and how often it runs, not what a run
  does.
\<close>

definition handleSearch ::
  "'err config \<Rightarrow> bool \<Rightarrow> 'err + 'item list \<Rightarrow> ('item, 'err, 'srt, 'cur) collection
     \<Rightarrow> ('err thrown + unit) \<times> ('item, 'err, 'srt, 'cur) collection" where
  "handleSearch cfg shouldThrow outcome st =
     (if \<not> has_searchFn cfg then (Inr (), st)
      else
        (let st1 = st\<lparr>searching := True\<rparr>;
             st2 = st1\<lparr>trace := trace st1 @ [SearchFnCall (searchQuery st1)]\<rparr>
         in (case outcome of
               Inr items \<Rightarrow> (Inr (), (st2\<lparr>data := items\<rparr>)\<lparr>searching := False\<rparr>)
             | Inl err \<Rightarrow>
                 (let st3 = st2\<lparr>searchErr := Some err\<rparr>;
                      rest = (if shouldThrow then Inl (Thrown err) else Inr ())
                  in (case errorHandlerFn cfg of
                        None \<Rightarrow> (rest, st3\<lparr>searching := False\<rparr>)
                      | Some h \<Rightarrow>
                          (let st4 = st3\<lparr>trace := trace st3 @ [ErrorHandlerCall err]\<rparr>
                           in (case h err of
                                 Some e \<Rightarrow> (Inl (Thrown e), st4\<lparr>searching := False\<rparr>)
                               | None \<Rightarrow> (rest, st4\<lparr>searching := False\<rparr>))))))))"

definition search ::
  "'err config \<Rightarrow> string \<Rightarrow> fetch_options \<Rightarrow> 'err + 'item list
     \<Rightarrow> ('item, 'err, 'srt, 'cur) collection
     \<Rightarrow> ('err thrown + unit) \<times> ('item, 'err, 'srt, 'cur) collection" where
  "search cfg q opts outcome st =
     handleSearch cfg (shouldThrowError opts) outcome (st\<lparr>searchQuery := q\<rparr>)"

subsection \<open>resetState\<close>

definition resetState ::
  "('item, 'err, 'srt, 'cur) collection \<Rightarrow> ('item, 'err, 'srt, 'cur) collection" where
  "resetState st =
     st\<lparr>initialized := False,
        data := [],
        totalCount := 0,
        filtersMap := Map.empty,
        searchQuery := [],
        fetching := False,
        fetchErr := None,
        searching := False,
        searchQuery := [],
        searchErr := None\<rparr>"

subsection \<open>Navigation of the offset Pagination\<close>

text \<open>
  The constructor gives the Collection's Pagination the callback
  \<^verbatim>\<open>onChange: () => this.fetch()\<close>, so \<^verbatim>\<open>pagination.goToNext()\<close> that moves the page
  starts a fetch with the default options.
\<close>

definition pagination_goToNext ::
  "nat \<Rightarrow> 'err config \<Rightarrow> ('srt, 'cur) collaborators \<Rightarrow> 'err + 'item response
     \<Rightarrow> ('item, 'err, 'srt, 'cur) collection \<Rightarrow> ('item, 'err, 'srt, 'cur) collection" where
  "pagination_goToNext d cfg X outcome st =
     (case pagination st of
        None \<Rightarrow> st
      | Some p \<Rightarrow>
          (case goToNext p of
             (p', fire) \<Rightarrow>
               (let st1 = st\<lparr>pagination := Some p'\<rparr>
                in if fire then snd (fetch d cfg X no_options outcome st1) else st1)))"

definition pagination_goToPrev ::
  "('item, 'err, 'srt, 'cur) collection \<Rightarrow> ('item, 'err, 'srt, 'cur) collection" where
  "pagination_goToPrev st =
     (case pagination st of None \<Rightarrow> st | Some p \<Rightarrow> st\<lparr>pagination := Some (goToPrev p)\<rparr>)"

subsection \<open>Operations\<close>

text \<open>
  The ways a Collection is driven: its public methods, the navigation of its offset
  Pagination, and the settling of a fetch that a change callback started. An operation
  that awaits an injected function carries what that function settles to, and one that
  calls \<^verbatim>\<open>fetch\<close> the room of the call stack.
\<close>

datatype ('item, 'err) operation =
    Fetch nat fetch_options "'err + 'item response"
  | Init nat fetch_options "'err + 'item response"
  | SetFetchParams jsobj
  | MergeFetchParams jsobj
  | ClearFetchParams
  | ClearFetchParam string
  | ResetFetchParams
  | Search string fetch_options "'err + 'item list"
  | ResetState
  | GoToNext nat "'err + 'item response"
  | GoToPrev
  | Settle fetch_options "'err + 'item response"

fun exec ::
  "'err config \<Rightarrow> ('srt, 'cur) collaborators \<Rightarrow> ('item, 'err) operation
     \<Rightarrow> ('item, 'err, 'srt, 'cur) collection \<Rightarrow> ('item, 'err, 'srt, 'cur) collection" where
  "exec cfg X (Fetch d opts outcome) st = snd (fetch d cfg X opts outcome st)"
| "exec cfg X (Init d opts outcome) st = snd (init d cfg X opts outcome st)"
| "exec cfg X (SetFetchParams f) st = setFetchParams f st"
| "exec cfg X (MergeFetchParams f) st = mergeFetchParams f st"
| "exec cfg X ClearFetchParams st = clearFetchParams st"
| "exec cfg X (ClearFetchParam k) st = clearFetchParam k st"
| "exec cfg X ResetFetchParams st = resetFetchParams cfg st"
| "exec cfg X (Search q opts outcome) st = snd (search cfg q opts outcome st)"
| "exec cfg X ResetState st = resetState st"
| "exec cfg X (GoToNext d outcome) st = pagination_goToNext d cfg X outcome st"
| "exec cfg X GoToPrev st = pagination_goToPrev st"
| "exec cfg X (Settle opts outcome) st = snd (fetch_settle cfg X opts outcome st)"

definition run ::
  "'err config \<Rightarrow> ('srt, 'cur) collaborators \<Rightarrow> ('item, 'err) operation list
     \<Rightarrow> ('item, 'err, 'srt, 'cur) collection \<Rightarrow> ('item, 'err, 'srt, 'cur) collection" where
  "run cfg X ops st = foldl (\<lambda>s op. exec cfg X op s) st ops"



subsection \<open>The shallow merge of a sequence of filter objects, as the spec words it\<close>

text \<open>
  The value of key \<open>k\<close> after merging \<open>fs\<close> in order into \<open>m\<close>: that of the last object
  of \<open>fs\<close> that has \<open>k\<close>, and the one in \<open>m\<close> when none has.
\<close>

definition shallow_merge_spec :: "jsobj \<Rightarrow> jsobj list \<Rightarrow> jsobj" where
  "shallow_merge_spec m fs k =
     (case find (\<lambda>f. f k \<noteq> None) (rev fs) of Some f \<Rightarrow> f k | None \<Rightarrow> m k)"

subsection \<open>The collaborators as the spec describes them\<close>

text \<open>
  Modelled from the spec: the \<^verbatim>\<open>Sorting\<close> class is not among the sources. The spec gives
  it a sort key and a direction. \<^verbatim>\<open>setParams\<close> overwrites the fields whose argument is
  given, leaves the others, and fires the change callback on every call, also when
  nothing changes. \<^verbatim>\<open>params\<close> has the fields that are defined, and no others. The spec
  names no initial direction, so both fields start undefined.
\<close>

record Sorting =
  s_sortBy :: "string option"
  s_sortAscending :: "bool option"

definition Sorting_setParams ::
  "string option \<Rightarrow> bool option \<Rightarrow> Sorting \<Rightarrow> Sorting \<times> bool" where
  "Sorting_setParams sb asc s =
     (let s1 = (case sb of None \<Rightarrow> s | Some k \<Rightarrow> s\<lparr>s_sortBy := Some k\<rparr>);
          s2 = (case asc of None \<Rightarrow> s1 | Some b \<Rightarrow> s1\<lparr>s_sortAscending := Some b\<rparr>)
      in (s2, True))"

definition Sorting_params :: "Sorting \<Rightarrow> jsobj" where
  "Sorting_params s =
     (case s_sortBy s of None \<Rightarrow> Map.empty | Some k \<Rightarrow> [''sortBy'' \<mapsto> JStr k]) ++
     (case s_sortAscending s of None \<Rightarrow> Map.empty | Some b \<Rightarrow> [''sortAscending'' \<mapsto> JBool b])"

text \<open>
  Modelled from the spec: the \<^verbatim>\<open>CursorPagination\<close> class is not among the sources. The
  spec gives it a page size and two tokens, set from the responses only; \<^verbatim>\<open>init\<close> primes
  the cursor to request, and \<^verbatim>\<open>params\<close> is \<^verbatim>\<open>{cursor, pageSize}\<close>. The page size starts
  as in \<^verbatim>\<open>Pagination\<close>.
\<close>

record CursorPagination =
  cp_cursor :: "string option"
  cp_next :: "string option"
  cp_prev :: "string option"
  cp_pageSize :: int

definition CursorPagination_new :: "int option \<Rightarrow> CursorPagination" where
  "CursorPagination_new ps =
     \<lparr>cp_cursor = None, cp_next = None, cp_prev = None,
      cp_pageSize = (case ps of None \<Rightarrow> 20 | Some n \<Rightarrow> if truthy (JNum n) then n else 20)\<rparr>"

definition CursorPagination_init ::
  "string option \<Rightarrow> int option \<Rightarrow> CursorPagination \<Rightarrow> CursorPagination" where
  "CursorPagination_init c ps cp =
     (let cp1 = (if truthy_str c then cp\<lparr>cp_cursor := c\<rparr> else cp)
      in (case ps of None \<Rightarrow> cp1 | Some n \<Rightarrow> if truthy (JNum n) then cp1\<lparr>cp_pageSize := n\<rparr> else cp1))"

definition CursorPagination_params :: "CursorPagination \<Rightarrow> jsobj" where
  "CursorPagination_params cp =
     [''cursor'' \<mapsto> (case cp_cursor cp of None \<Rightarrow> JNull | Some c \<Rightarrow> JStr c),
      ''pageSize'' \<mapsto> JNum (cp_pageSize cp)]"

text \<open>
  The parser of this instance reads nothing: every query string gives the empty object.
\<close>

definition spec_collaborators :: "(Sorting, CursorPagination) collaborators" where
  "spec_collaborators =
     \<lparr>new_Sorting = \<lparr>s_sortBy = None, s_sortAscending = None\<rparr>,
      sorting_setParams = Sorting_setParams,
      sorting_params = Sorting_params,
      new_CursorPagination = CursorPagination_new,
      cursor_init = CursorPagination_init,
      cursor_setNext = (\<lambda>c cp. cp\<lparr>cp_next := c\<rparr>),
      cursor_setPrev = (\<lambda>c cp. cp\<lparr>cp_prev := c\<rparr>),
      cursor_params = CursorPagination_params,
      qs_parse = (\<lambda>q. Map.empty)\<rparr>"


subsection \<open>Sample configurations and states\<close>

text \<open>An offset-paginated Collection whose error handler returns.\<close>

definition offset_config :: "string config" where
  "offset_config =
     \<lparr>cfg_pagination = OffsetStrategy, cfg_pageSize = Some 10, initialFilters = None,
      has_searchFn = True, errorHandlerFn = Some (\<lambda>e. None)\<rparr>"


definition sample_state :: "(nat, string, Sorting, CursorPagination) collection" where
  "sample_state = (new_Collection spec_collaborators offset_config)\<lparr>data := [1, 2]\<rparr>"

definition two_items :: "nat response" where
  "two_items =
     \<lparr>r_data = [1, 2], r_totalCount = Some 2, nextPageCursor = None, prevPageCursor = None\<rparr>"


section \<open>Pagination: the boundary test\<close>

lemma canGoToNext_cases:
  "canGoToNext p \<longleftrightarrow>
     (case p_totalCount p of None \<Rightarrow> True | Some n \<Rightarrow> n = 0 \<or> page p * pageSize p < n)"
  by (auto simp add: canGoToNext_def split: option.splits)

lemma canGoToNext_examples:
  "canGoToNext \<lparr>page = 2, pageSize = 10, p_totalCount = Some 25\<rparr> \<and>
   \<not> canGoToNext \<lparr>page = 3, pageSize = 10, p_totalCount = Some 25\<rparr> \<and>
   canGoToNext \<lparr>page = pg, pageSize = ps, p_totalCount = None\<rparr>"
  by (simp add: canGoToNext_def)

text \<open>
  C1. The claim: \<^verbatim>\<open>canGoToNext\<close> is true when \<^verbatim>\<open>totalCount\<close> was never set, and once it
  is set it is true exactly when \<open>page * pageSize < totalCount\<close>. The code departs from
  it when the total that was set is \<open>0\<close>: on a fresh Pagination (page 1, page size 20)
  after \<^verbatim>\<open>setTotalCount(0)\<close>, \<^verbatim>\<open>canGoToNext\<close> is true although \<open>1 * 20 < 0\<close> is false,
  because \<^verbatim>\<open>!this.totalCount\<close> takes the known total \<open>0\<close> for an unknown one. For every
  other total the claim holds (\<open>canGoToNext_cases\<close>), its two examples included
  (\<open>canGoToNext_examples\<close>).
\<close>

theorem canGoToNext_total_zero:
  "p_totalCount (setTotalCount 0 (new_Pagination None)) = Some 0 \<and>
   canGoToNext (setTotalCount 0 (new_Pagination None)) \<and>
   \<not> page (setTotalCount 0 (new_Pagination None)) * pageSize (setTotalCount 0 (new_Pagination None)) < 0"
  by (simp add: canGoToNext_def setTotalCount_def new_Pagination_def)


section \<open>CacheItem: staleness and identity\<close>

text \<open>
  C8. \<^verbatim>\<open>isStale(now)\<close> is true exactly when the time from \<^verbatim>\<open>cachedAt\<close> to \<open>now\<close> is
  strictly more than \<open>ttl\<close> minutes (\<open>ttl * 60000\<close> milliseconds); an item built from
  \<^verbatim>\<open>{id: "x"}\<close> with \<open>ttl = 5\<close> at any instant \<open>t0\<close> is not stale four minutes
  later and is stale six minutes later.
\<close>

theorem isStale_elapsed_exceeds_ttl:
  "(isStale c now \<longleftrightarrow> ttl c * 60000 < of_int (now - cachedAt c)) \<and>
   new_CacheItem [''id'' \<mapsto> JStr ''x''] 5 u t0 =
     Inr \<lparr>ci_id = ''x'', cachedAt = t0, ci_data = [''id'' \<mapsto> JStr ''x''], ttl = 5\<rparr> \<and>
   \<not> isStale \<lparr>ci_id = ''x'', cachedAt = t0, ci_data = [''id'' \<mapsto> JStr ''x''], ttl = 5\<rparr>
       (t0 + 4 * 60000) \<and>
   isStale \<lparr>ci_id = ''x'', cachedAt = t0, ci_data = [''id'' \<mapsto> JStr ''x''], ttl = 5\<rparr>
       (t0 + 6 * 60000)"
  by (simp add: isStale_def timeDeltaInMinutes_def new_CacheItem_def js_or_def get_prop_def
      pos_less_divide_eq)

lemma new_CacheItem_returns: "\<exists>c. new_CacheItem payload t u now = Inr c"
  by (cases "get_prop payload ''id''") (simp_all add: new_CacheItem_def js_or_def)

lemma new_CacheItem_truthy_id:
  "payload ''id'' = Some v \<Longrightarrow> truthy v \<Longrightarrow>
     \<exists>s. js_toString v = Inr s \<and>
       new_CacheItem payload t u now =
         Inr \<lparr>ci_id = s, cachedAt = now, ci_data = payload, ttl = t\<rparr>"
  by (cases v) (simp_all add: new_CacheItem_def js_or_def get_prop_def)

lemma new_CacheItem_no_id:
  "payload ''id'' = None \<Longrightarrow>
     new_CacheItem payload t u now =
       Inr \<lparr>ci_id = u, cachedAt = now, ci_data = payload, ttl = t\<rparr>"
  by (simp add: new_CacheItem_def js_or_def get_prop_def)

text \<open>
  C9. The claim: the id of a new CacheItem is the payload's own \<^verbatim>\<open>id\<close>, as a string,
  whenever the payload has one, and a generated identifier otherwise. The code departs
  from it on a payload whose \<^verbatim>\<open>id\<close> is there and falsy: for \<^verbatim>\<open>{id: 0}\<close> the item's id is
  the generated identifier \<open>u\<close>, not \<open>''0''\<close>, the string of the payload's id, because
  \<^verbatim>\<open>this.data.id || uuid()\<close> passes over the id \<open>0\<close>. For a truthy id and for a payload
  without one the claim holds (\<open>new_CacheItem_truthy_id\<close>, \<open>new_CacheItem_no_id\<close>).
\<close>

theorem new_CacheItem_id_zero:
  "new_CacheItem [''id'' \<mapsto> JNum 0] t u now =
     Inr \<lparr>ci_id = u, cachedAt = now, ci_data = [''id'' \<mapsto> JNum 0], ttl = t\<rparr> \<and>
   js_toString (JNum 0) = Inr ''0''"
  by (simp add: new_CacheItem_def js_or_def get_prop_def int_toString_def digit_char_def)


section \<open>Collection: the fetch lifecycle\<close>

lemmas filter_defs =
  setFetchParams_def mergeFetchParams_def clearFetchParams_def clearFetchParam_def
  resetFetchParams_def

lemma fetch_prepare_frame:
  "data (fst (fetch_prepare X opts st)) = data st"
  "initialized (fst (fetch_prepare X opts st)) = initialized st"
  "fetching (fst (fetch_prepare X opts st)) = fetching st"
  "totalCount (fst (fetch_prepare X opts st)) = totalCount st"
  "fetchErr (fst (fetch_prepare X opts st)) = fetchErr st"
  "pagination (fst (fetch_prepare X opts st)) = pagination st"
  "snd (fetch_prepare X opts st) = snd (sorting_setParams X (sortBy opts) (sortAscending opts) (sorting st))"
  by (simp_all add: fetch_prepare_def Let_def)

lemma fetch_request_frame:
  "data (fetch_request X opts st) = data st"
  "initialized (fetch_request X opts st) = initialized st"
  "totalCount (fetch_request X opts st) = totalCount st"
  "fetchErr (fetch_request X opts st) = fetchErr st"
  "fetching (fetch_request X opts st) = True"
  "pagination (fetch_request X opts st) =
     map_option (Pagination_init (o_page opts) (o_pageSize opts)) (pagination st)"
  by (simp_all add: fetch_request_def Let_def filter_defs split: option.splits)








lemma Pagination_init_total: "p_totalCount (Pagination_init pg ps p) = p_totalCount p"
  by (simp add: Pagination_init_def Let_def split: option.splits)

lemma fetch_begin_pagination_total:
  "map_option p_totalCount (pagination (snd (fetch_begin d X opts st))) =
     map_option p_totalCount (pagination st)"
  by (induction d arbitrary: opts st)
    (simp_all add: Let_def fetch_prepare_frame fetch_request_frame option.map_comp comp_def
      Pagination_init_total)









lemma fetch_settle_pagination:
  "pagination (snd (fetch_settle cfg X opts outcome s)) = pagination s"
  by (simp add: fetch_settle_def fetch_finally_def Let_def split: sum.splits option.splits)


lemma fetch_reached:
  "fst (fetch_begin d X opts st) \<Longrightarrow>
     fetch d cfg X opts outcome st = fetch_settle cfg X opts outcome (snd (fetch_begin d X opts st))"
  by (simp add: fetch_def Let_def)

lemma fetch_ended:
  "\<not> fst (fetch_begin d X opts st) \<Longrightarrow>
     fetch d cfg X opts outcome st = (Inl RangeError, snd (fetch_begin d X opts st))"
  by (simp add: fetch_def Let_def)










section \<open>Collection: query parameters\<close>

lemma spread3: "spread [a, b, c] = a ++ b ++ c"
  by (simp add: spread_def)

lemma Sorting_params_defined: "Sorting_params srt k \<noteq> Some JUndefined"
  by (simp add: Sorting_params_def map_add_def split: option.splits)

text \<open>
  C4, as the code has it. \<^verbatim>\<open>queryParams\<close> has exactly the keys of the filters, of the
  sorting params and of the pagination params, and under each key the value of the last
  of the three that has the key: the pagination params before the sorting params before
  the filters. The pagination params are \<^verbatim>\<open>{page, pageSize}\<close> of the offset Pagination
  when there is one, else the params of the cursor pagination when there is one, else
  empty. The sorting params, with the Sorting of the spec, are the defined fields among
  \<^verbatim>\<open>sortBy\<close> and \<^verbatim>\<open>sortAscending\<close> and nothing else: no key of them is \<open>undefined\<close>.
\<close>

theorem queryParams_later_source_wins:
  "dom (queryParams X st) =
     dom (filters st) \<union> dom (sorting_params X (sorting st)) \<union> dom (paginationParams X st) \<and>
   queryParams X st k =
     (case paginationParams X st k of
        Some v \<Rightarrow> Some v
      | None \<Rightarrow> (case sorting_params X (sorting st) k of Some v \<Rightarrow> Some v | None \<Rightarrow> filters st k)) \<and>
   paginationParams X st =
     (case pagination st of
        Some p \<Rightarrow> [''page'' \<mapsto> JNum (page p), ''pageSize'' \<mapsto> JNum (pageSize p)]
      | None \<Rightarrow> (case cursorPagination st of Some c \<Rightarrow> cursor_params X c | None \<Rightarrow> Map.empty)) \<and>
   sorting_params spec_collaborators srt = Sorting_params srt \<and>
   Sorting_params srt ''sortBy'' = map_option JStr (s_sortBy srt) \<and>
   Sorting_params srt ''sortAscending'' = map_option JBool (s_sortAscending srt) \<and>
   dom (Sorting_params srt) \<subseteq> {''sortBy'', ''sortAscending''} \<and>
   Sorting_params srt k \<noteq> Some JUndefined"
proof -
  have a: "dom (queryParams X st) =
     dom (filters st) \<union> dom (sorting_params X (sorting st)) \<union> dom (paginationParams X st)"
    by (auto simp add: queryParams_def spread3)
  have b: "queryParams X st k =
     (case paginationParams X st k of
        Some v \<Rightarrow> Some v
      | None \<Rightarrow> (case sorting_params X (sorting st) k of Some v \<Rightarrow> Some v | None \<Rightarrow> filters st k))"
    by (simp add: queryParams_def spread3 map_add_def split: option.splits)
  have c: "paginationParams X st =
     (case pagination st of
        Some p \<Rightarrow> [''page'' \<mapsto> JNum (page p), ''pageSize'' \<mapsto> JNum (pageSize p)]
      | None \<Rightarrow> (case cursorPagination st of Some c \<Rightarrow> cursor_params X c | None \<Rightarrow> Map.empty))"
    by (simp add: paginationParams_def params_def split: option.splits)
  have d: "sorting_params spec_collaborators srt = Sorting_params srt"
    by (simp add: spec_collaborators_def)
  have e: "Sorting_params srt ''sortBy'' = map_option JStr (s_sortBy srt)"
    "Sorting_params srt ''sortAscending'' = map_option JBool (s_sortAscending srt)"
    by (simp_all add: Sorting_params_def map_add_def split: option.splits)
  have f: "dom (Sorting_params srt) \<subseteq> {''sortBy'', ''sortAscending''}"
    by (auto simp add: Sorting_params_def split: option.splits if_splits)
  show ?thesis using a b c d e f Sorting_params_defined by blast
qed

text \<open>
  C4, as the claim has it, fails: no field of a source may be dropped, yet with the
  filter \<^verbatim>\<open>page = "all"\<close> merged into an offset-paginated Collection the filters have
  \<^verbatim>\<open>page: "all"\<close> and \<^verbatim>\<open>queryParams\<close> has \<^verbatim>\<open>page: 1\<close>.
\<close>

theorem queryParams_drops_filter_page:
  "filters (mergeFetchParams [''page'' \<mapsto> JStr ''all''] sample_state) ''page''
     = Some (JStr ''all'') \<and>
   queryParams spec_collaborators (mergeFetchParams [''page'' \<mapsto> JStr ''all''] sample_state) ''page''
     = Some (JNum 1)"
  by (simp add: filters_def mergeFetchParams_def sample_state_def new_Collection_def
      offset_config_def queryParams_def spread3 paginationParams_def params_def
      new_Pagination_def)


section \<open>Collection: init, resetState, mergeFetchParams\<close>






text \<open>
  C6. From every state \<^verbatim>\<open>resetState\<close> gives \<^verbatim>\<open>initialized = false\<close>, no items,
  \<^verbatim>\<open>totalCount = 0\<close>, an empty filter map, the empty search query, both busy flags
  false and both errors undefined, and leaves the pagination objects and the sorting
  object as they are.
\<close>

theorem resetState_restores:
  "initialized (resetState st) = False \<and>
   data (resetState st) = [] \<and>
   totalCount (resetState st) = 0 \<and>
   filtersMap (resetState st) = Map.empty \<and>
   searchQuery (resetState st) = [] \<and>
   fetching (resetState st) = False \<and>
   searching (resetState st) = False \<and>
   fetchErr (resetState st) = None \<and>
   searchErr (resetState st) = None \<and>
   pagination (resetState st) = pagination st \<and>
   cursorPagination (resetState st) = cursorPagination st \<and>
   sorting (resetState st) = sorting st"
  by (simp add: resetState_def)

lemma filtersMap_merge_foldl:
  "filtersMap (foldl (\<lambda>s f. mergeFetchParams f s) st fs) = foldl (++) (filtersMap st) fs"
  by (induction fs arbitrary: st) (simp_all add: mergeFetchParams_def)

lemma shallow_merge_spec_snoc:
  "shallow_merge_spec m (fs @ [f]) = shallow_merge_spec m fs ++ f"
  by (rule ext) (simp add: shallow_merge_spec_def map_add_def split: option.splits)

lemma foldl_map_add_spec: "foldl (++) m fs = shallow_merge_spec m fs"
proof (induction fs rule: rev_induct)
  case Nil
  show ?case by (rule ext) (simp add: shallow_merge_spec_def)
next
  case (snoc f fs)
  then show ?case by (simp add: shallow_merge_spec_snoc)
qed

text \<open>
  C7. After \<^verbatim>\<open>mergeFetchParams(f1)\<close>, ..., \<^verbatim>\<open>mergeFetchParams(fn)\<close> the filter map is the
  shallow merge of the starting map with \<open>f1\<close> to \<open>fn\<close> in call order: each key has the
  value of the last argument that has it, and its starting value when none has.
\<close>

theorem mergeFetchParams_sequence:
  "filtersMap (foldl (\<lambda>s f. mergeFetchParams f s) st fs) = shallow_merge_spec (filtersMap st) fs"
  by (simp add: filtersMap_merge_foldl foldl_map_add_spec)


section \<open>Collection and the total of its Pagination\<close>

lemma fetch_pagination_total:
  "map_option p_totalCount (pagination (snd (fetch d cfg X opts outcome st))) =
     map_option p_totalCount (pagination st)"
  by (cases "fst (fetch_begin d X opts st)")
    (simp_all add: fetch_reached fetch_ended fetch_settle_pagination fetch_begin_pagination_total)

lemma exec_pagination_total:
  "map_option p_totalCount (pagination (exec cfg X op st)) = map_option p_totalCount (pagination st)"
proof (cases op)
  case (Fetch d opts outcome)
  then show ?thesis by (simp add: fetch_pagination_total)
next
  case (Init d opts outcome)
  then show ?thesis
    by (simp add: init_def fetch_pagination_total [of d cfg X opts outcome st, symmetric]
        split: prod.splits sum.splits)
next
  case (Search q opts outcome)
  then show ?thesis
    by (simp add: search_def handleSearch_def Let_def split: sum.splits option.splits)
next
  case (GoToNext d outcome)
  show ?thesis
  proof (cases "pagination st")
    case None
    with GoToNext show ?thesis by (simp add: pagination_goToNext_def)
  next
    case (Some p)
    show ?thesis
    proof (cases "canGoToNext p")
      case True
      have "map_option p_totalCount
              (pagination (snd (fetch d cfg X no_options outcome
                 (st\<lparr>pagination := Some (p\<lparr>page := page p + 1\<rparr>)\<rparr>)))) = Some (p_totalCount p)"
        by (simp add: fetch_pagination_total)
      with GoToNext Some True show ?thesis
        by (simp add: pagination_goToNext_def goToNext_def Let_def)
    next
      case False
      with GoToNext Some show ?thesis
        by (simp add: pagination_goToNext_def goToNext_def Let_def)
    qed
  qed
next
  case GoToPrev
  then show ?thesis by (simp add: pagination_goToPrev_def goToPrev_def split: option.splits)
next
  case ResetState
  then show ?thesis by (simp add: resetState_def)
next
  case (Settle opts outcome)
  then show ?thesis by (simp add: fetch_settle_pagination)
qed (simp_all add: filter_defs)

lemma run_pagination_total:
  "map_option p_totalCount (pagination (run cfg X ops st)) = map_option p_totalCount (pagination st)"
  unfolding run_def
  by (induction ops arbitrary: st) (simp_all add: exec_pagination_total)

lemma fetch_settle_success_totalCount:
  "totalCount (snd (fetch_settle cfg X opts (Inr res) s)) =
     (case r_totalCount res of Some n \<Rightarrow> n | None \<Rightarrow> totalCount s)"
  by (simp add: fetch_settle_def fetch_finally_def Let_def split: option.splits)

lemma fetch_begin_totalCount: "totalCount (snd (fetch_begin d X opts st)) = totalCount st"
  by (induction d arbitrary: opts st)
    (simp_all add: Let_def fetch_prepare_frame fetch_request_frame)

text \<open>
  C10. A successful \<^verbatim>\<open>fetch\<close> puts the total of the response, when there is one, in the
  Collection's own \<^verbatim>\<open>totalCount\<close>; no \<^verbatim>\<open>fetch\<close> changes the total of the offset
  Pagination. So in a Collection built with the offset strategy, after any sequence of
  operations (fetches with any options and outcomes among them) the Pagination's total
  is still unset and its \<^verbatim>\<open>canGoToNext\<close> is true.
\<close>

theorem pagination_total_never_set:
  "(fst (fetch_begin d X opts st) \<longrightarrow>
      totalCount (snd (fetch d cfg X opts (Inr res) st)) =
        (case r_totalCount res of Some n \<Rightarrow> n | None \<Rightarrow> totalCount st)) \<and>
   totalCount (snd (fetch_settle cfg X opts (Inr res) s)) =
     (case r_totalCount res of Some n \<Rightarrow> n | None \<Rightarrow> totalCount s) \<and>
   map_option p_totalCount (pagination (snd (fetch d cfg X opts outcome st))) =
     map_option p_totalCount (pagination st) \<and>
   (cfg_pagination cfg = OffsetStrategy \<longrightarrow>
      (\<exists>p. pagination (run cfg X ops (new_Collection X cfg)) = Some p \<and>
           p_totalCount p = None \<and> canGoToNext p))"
proof -
  have "\<exists>p. pagination (run cfg X ops (new_Collection X cfg)) = Some p \<and>
           p_totalCount p = None \<and> canGoToNext p" if "cfg_pagination cfg = OffsetStrategy"
  proof -
    have "map_option p_totalCount (pagination (run cfg X ops (new_Collection X cfg))) = Some None"
      using that by (simp add: run_pagination_total new_Collection_def new_Pagination_def)
    then obtain p where "pagination (run cfg X ops (new_Collection X cfg)) = Some p"
      and "p_totalCount p = None" by auto
    then show ?thesis by (auto simp add: canGoToNext_def)
  qed
  then show ?thesis
    by (simp add: fetch_reached fetch_settle_success_totalCount fetch_begin_totalCount
        fetch_pagination_total split: option.splits)
qed

theorem pagination_total_never_set_witness:
  "cfg_pagination offset_config = OffsetStrategy \<and>
   fst (fetch_begin (Suc 0) spec_collaborators no_options sample_state) \<and>
   totalCount (snd (fetch (Suc 0) offset_config spec_collaborators no_options (Inr two_items)
      sample_state)) = 2 \<and>
   (\<exists>p. pagination (run offset_config spec_collaborators
            [Fetch 3 no_options (Inr two_items), GoToNext 3 (Inr two_items),
             GoToNext 3 (Inl ''boom''), Settle no_options (Inr two_items)]
            (new_Collection spec_collaborators offset_config
               :: (nat, string, Sorting, CursorPagination) collection)) = Some p \<and>
        p_totalCount p = None \<and> canGoToNext p)"
proof -
  have a: "cfg_pagination offset_config = OffsetStrategy"
    by (simp add: offset_config_def)
  have b: "fst (fetch_begin (Suc 0) spec_collaborators no_options sample_state)"
    by (simp add: Let_def)
  have c: "(case r_totalCount two_items of Some n \<Rightarrow> n | None \<Rightarrow> totalCount sample_state) = 2"
    by (simp add: two_items_def)
  show ?thesis
    using a b c pagination_total_never_set [where d = "Suc 0" and X = spec_collaborators
        and opts = no_options and st = sample_state and cfg = offset_config and res = two_items
        and ops = "[Fetch 3 no_options (Inr two_items), GoToNext 3 (Inr two_items),
             GoToNext 3 (Inl ''boom''), Settle no_options (Inr two_items)]"]
    by (simp del: fetch_begin.simps)
qed

end
